theory Spec2Isabelle
  imports Complex_Main
begin

section \<open>Values exchanged with the host\<close>

text \<open>
  A parsed JSON document, as \<open>response.json()\<close> and \<open>request.json()\<close> return it. A
  number stands for the parsed double; the code only ever tests it for zero. An object
  keeps its members in document order.
\<close>

datatype json =
    JNull
  | JBool bool
  | JNum rat
  | JStr string
  | JArr "json list"
  | JObj "(string \<times> json) list"

text \<open>
  A value thrown inside a \<open>try\<close> block: an \<open>Error\<close> instance with its message, a
  TypeError raised by the runtime (an \<open>Error\<close> instance whose message is the runtime's),
  or any other thrown value. The runtime raises a TypeError where a member of \<open>null\<close> or
  of \<open>undefined\<close> is read, and where an object cannot be converted to a primitive value.
\<close>

datatype fault = MemberOfNull | MemberOfUndefined | NotPrimitive

datatype thrown = ErrorObj string | TypeError fault | NonError

text \<open>
  Reading an own data member \<open>v.key\<close>. \<open>None\<close> is \<open>undefined\<close>. Reading a member of
  \<open>null\<close> throws a TypeError. A repeated key of an object resolves to its last
  occurrence, as \<open>JSON.parse\<close> leaves it. The function is used for the keys
  \<open>summary\<close> and \<open>meetingText\<close> only, which neither arrays nor the wrappers of booleans,
  numbers and strings define.
\<close>

fun get_member :: "string \<Rightarrow> json \<Rightarrow> thrown + json option" where
  "get_member key JNull = Inl (TypeError MemberOfNull)"
| "get_member key (JObj kvs) = Inr (map_of (rev kvs) key)"
| "get_member key v = Inr None"

text \<open>JavaScript truthiness of a member that may be \<open>undefined\<close>.\<close>

fun truthy :: "json option \<Rightarrow> bool" where
  "truthy None = False"
| "truthy (Some JNull) = False"
| "truthy (Some (JBool b)) = b"
| "truthy (Some (JNum n)) = (n \<noteq> 0)"
| "truthy (Some (JStr s)) = (s \<noteq> [])"
| "truthy (Some (JArr xs)) = True"
| "truthy (Some (JObj kvs)) = True"

text \<open>\<open>a || b\<close> on a member and a string literal.\<close>

definition or_else :: "json option \<Rightarrow> string \<Rightarrow> json" where
  "or_else v d = (if truthy v then the v else JStr d)"

section \<open>The component \<open>LiveTranscription\<close>\<close>

text \<open>
  The recognition object held in the \<open>recognition\<close> ref. It belongs to the browser;
  \<open>started\<close> records the last of \<open>start()\<close> and \<open>stop()\<close> that the component issued on
  it. Both calls are taken to return; what the engine does between them is not modelled.
\<close>

record SpeechRecognition =
  continuous :: bool
  interimResults :: bool
  started :: bool

text \<open>
  One alternative of a recognition result, and the event the engine delivers: its list
  of results, each a list of alternatives, and its error code.
\<close>

record SpeechRecognitionAlternative =
  transcript :: string

record SpeechRecognitionEvent =
  results :: "SpeechRecognitionAlternative list list"
  error :: string

text \<open>The request handed to \<open>fetch\<close>; \<open>body\<close> is the document that is stringified.\<close>

record fetch_request =
  url :: string
  http_method :: string
  headers :: "(string \<times> string) list"
  body :: json

text \<open>What a handler does to the outside, in program order.\<close>

datatype effect =
    Alert string
  | ConsoleWarn string
  | ConsoleError string thrown
  | ConsoleErrorText string string
  | EngineStart
  | EngineStop
  | Fetch fetch_request
  | ClipboardWrite string
  | SetTimeout nat
  | Uncaught thrown

text \<open>
  The hooks of the component. \<open>summarizedText\<close> receives \<open>data.summary\<close> unchecked
  (\<open>data\<close> is untyped), so at run time it holds a JSON value.
\<close>

record state =
  transcription :: string
  summarizedText :: json
  isListening :: bool
  isLoading :: bool
  isEditing :: bool
  isCopied :: bool
  recognition :: "SpeechRecognition option"

definition initial :: state where
  "initial = \<lparr>transcription = [], summarizedText = JStr [], isListening = False,
     isLoading = False, isEditing = False, isCopied = False, recognition = None\<rparr>"

text \<open>The mount effect; \<open>supported\<close> is \<open>"webkitSpeechRecognition" in window\<close>.\<close>

definition mount :: "bool \<Rightarrow> state \<Rightarrow> state \<times> effect list" where
  "mount supported s =
     (if \<not> supported then (s, [Alert ''Speech Recognition is not supported in this browser.''])
      else (s\<lparr>recognition :=
              Some \<lparr>continuous = True, interimResults = False, started = False\<rparr>\<rparr>, []))"

text \<open>The cleanup of the mount effect.\<close>

definition unmount :: "state \<Rightarrow> state \<times> effect list" where
  "unmount s =
     (case recognition s of
        None \<Rightarrow> (s\<lparr>recognition := None\<rparr>, [])
      | Some e \<Rightarrow> (s\<lparr>recognition := None\<rparr>, [EngineStop]))"

subsection \<open>Recognition results and errors\<close>

text \<open>
  \<open>Array.from(event.results).map((result) => result[0].transcript).join("")\<close>: the
  first alternative of every result of the event. \<open>result[0]\<close> of a result with no
  alternative is \<open>undefined\<close>, and reading its \<open>transcript\<close> throws.
\<close>

fun first_transcripts :: "SpeechRecognitionAlternative list list \<Rightarrow> thrown + string list" where
  "first_transcripts [] = Inr []"
| "first_transcripts ([] # rs) = Inl (TypeError MemberOfUndefined)"
| "first_transcripts ((a # as) # rs) =
     (case first_transcripts rs of
        Inl t \<Rightarrow> Inl t
      | Inr ts \<Rightarrow> Inr (transcript a # ts))"

definition onresult :: "SpeechRecognitionEvent \<Rightarrow> state \<Rightarrow> state \<times> effect list" where
  "onresult event s =
     (case first_transcripts (results event) of
        Inl t \<Rightarrow> (s, [Uncaught t])
      | Inr ts \<Rightarrow> (s\<lparr>transcription := transcription s @ concat ts\<rparr>, []))"

definition onerror :: "SpeechRecognitionEvent \<Rightarrow> state \<Rightarrow> state \<times> effect list" where
  "onerror event s =
     (if error event = ''no-speech'' then
        (case recognition s of
           None \<Rightarrow> (s, [ConsoleWarn ''No speech detected. Restarting recognition...''])
         | Some e \<Rightarrow>
             (s\<lparr>recognition := Some (e\<lparr>started := True\<rparr>)\<rparr>,
              [ConsoleWarn ''No speech detected. Restarting recognition...'', EngineStart]))
      else (s, [ConsoleErrorText ''Speech Recognition Error:'' (error event)]))"

subsection \<open>Capture controls\<close>

definition startListening :: "state \<Rightarrow> state \<times> effect list" where
  "startListening s =
     (case recognition s of
        None \<Rightarrow> (s, [Alert ''Speech recognition is not initialized properly.''])
      | Some e \<Rightarrow>
          (s\<lparr>recognition := Some (e\<lparr>started := True\<rparr>), isListening := True\<rparr>, [EngineStart]))"

definition stopListening :: "state \<Rightarrow> state \<times> effect list" where
  "stopListening s =
     (case recognition s of
        None \<Rightarrow> (s, [Alert ''Speech recognition is not initialized properly.''])
      | Some e \<Rightarrow>
          (s\<lparr>recognition := Some (e\<lparr>started := False\<rparr>), isListening := False\<rparr>, [EngineStop]))"

subsection \<open>Summarizing\<close>

text \<open>
  \<open>summarizeTranscription\<close> up to its \<open>await fetch(...)\<close>: the guard, the loading
  flag and the request.
\<close>

definition summarize_request :: "string \<Rightarrow> fetch_request" where
  "summarize_request text =
     \<lparr>url = ''/api/summarizer'', http_method = ''POST'',
      headers = [(''Content-Type'', ''application/json'')],
      body = JObj [(''meetingText'', JStr text)]\<rparr>"

definition summarizeTranscription :: "state \<Rightarrow> state \<times> effect list" where
  "summarizeTranscription s =
     (if transcription s = [] then (s, [Alert ''No transcription available to summarize.''])
      else (s\<lparr>isLoading := True\<rparr>, [Fetch (summarize_request (transcription s))]))"

text \<open>
  How the awaited \<open>fetch\<close> ends: the promise rejects (a transport failure), or a response
  arrives with its \<open>ok\<close> flag and what \<open>response.json()\<close> would give (a rejection when
  the body is not JSON).
\<close>

datatype fetch_outcome =
    Rejected thrown
  | Response bool "thrown + json"

text \<open>The rest of the \<open>try\<close> block: the value for \<open>setSummarizedText\<close>, or what is thrown.\<close>

definition summarize_try :: "fetch_outcome \<Rightarrow> thrown + json" where
  "summarize_try outcome =
     (case outcome of
        Rejected t \<Rightarrow> Inl t
      | Response ok parsed \<Rightarrow>
          if \<not> ok then Inl (ErrorObj ''Failed to summarize transcription'')
          else (case parsed of
                  Inl t \<Rightarrow> Inl t
                | Inr data \<Rightarrow>
                    (case get_member ''summary'' data of
                       Inl t \<Rightarrow> Inl t
                     | Inr v \<Rightarrow> Inr (or_else v ''No summary available.''))))"

text \<open>\<open>summarizeTranscription\<close> from the settled \<open>fetch\<close> on: \<open>try\<close>, \<open>catch\<close>, \<open>finally\<close>.\<close>

definition summarize_settled :: "fetch_outcome \<Rightarrow> state \<Rightarrow> state \<times> effect list" where
  "summarize_settled outcome s =
     (case summarize_try outcome of
        Inr text \<Rightarrow> (s\<lparr>summarizedText := text, isLoading := False\<rparr>, [])
      | Inl t \<Rightarrow>
          (s\<lparr>summarizedText := JStr ''Failed to summarize transcription.'', isLoading := False\<rparr>,
           [ConsoleError ''Error summarizing transcription:'' t]))"

subsection \<open>Clearing, copying, editing\<close>

definition clearTranscription :: "state \<Rightarrow> state \<times> effect list" where
  "clearTranscription s = (s\<lparr>transcription := [], summarizedText := JStr []\<rparr>, [])"

definition copyTranscription :: "state \<Rightarrow> state \<times> effect list" where
  "copyTranscription s =
     (if transcription s = [] then (s, []) else (s, [ClipboardWrite (transcription s)]))"

text \<open>The \<open>then\<close> and \<open>catch\<close> callbacks of the clipboard promise, and the timer callback.\<close>

definition copy_settled :: "thrown option \<Rightarrow> state \<Rightarrow> state \<times> effect list" where
  "copy_settled failure s =
     (case failure of
        None \<Rightarrow> (s\<lparr>isCopied := True\<rparr>, [SetTimeout 2000])
      | Some t \<Rightarrow> (s, [ConsoleError ''Failed to copy transcription:'' t]))"

definition copied_timeout :: "state \<Rightarrow> state \<times> effect list" where
  "copied_timeout s = (s\<lparr>isCopied := False\<rparr>, [])"

definition toggleEditing :: "state \<Rightarrow> state \<times> effect list" where
  "toggleEditing s = (s\<lparr>isEditing := \<not> isEditing s\<rparr>, [])"

text \<open>The \<open>onChange\<close> of the text area.\<close>

definition onChange :: "string \<Rightarrow> state \<Rightarrow> state \<times> effect list" where
  "onChange v s = (s\<lparr>transcription := v\<rparr>, [])"

subsection \<open>The rendered controls\<close>

text \<open>
  What reaches a handler from the page. The Start button is disabled while
  \<open>isListening\<close> and the Stop button while not; the copy, edit and clear buttons, the
  text area and the Summarize button are rendered only while the transcription is not
  empty, the text area only in edit mode, and the Summarize button is disabled while
  \<open>isLoading\<close>. A click on a disabled or absent control reaches nothing. The tabbed
  variant of the component has the same hooks and handlers, and renders the
  transcription controls on one of its two tabs.
\<close>

datatype event =
    ClickStart
  | ClickStop
  | ClickSummarize
  | ClickClear
  | ClickCopy
  | ClickEdit
  | Change string
  | EngineResult SpeechRecognitionEvent
  | EngineError SpeechRecognitionEvent
  | Settled fetch_outcome
  | CopySettled "thrown option"
  | CopiedTimeout
  | Unmount

fun dispatch :: "event \<Rightarrow> state \<Rightarrow> state \<times> effect list" where
  "dispatch ClickStart s = (if isListening s then (s, []) else startListening s)"
| "dispatch ClickStop s = (if \<not> isListening s then (s, []) else stopListening s)"
| "dispatch ClickSummarize s =
     (if transcription s = [] \<or> isLoading s then (s, []) else summarizeTranscription s)"
| "dispatch ClickClear s = (if transcription s = [] then (s, []) else clearTranscription s)"
| "dispatch ClickCopy s = (if transcription s = [] then (s, []) else copyTranscription s)"
| "dispatch ClickEdit s = (if transcription s = [] then (s, []) else toggleEditing s)"
| "dispatch (Change v) s =
     (if transcription s = [] \<or> \<not> isEditing s then (s, []) else onChange v s)"
| "dispatch (EngineResult ev) s = onresult ev s"
| "dispatch (EngineError ev) s = onerror ev s"
| "dispatch (Settled outcome) s = summarize_settled outcome s"
| "dispatch (CopySettled failure) s = copy_settled failure s"
| "dispatch CopiedTimeout s = copied_timeout s"
| "dispatch Unmount s = unmount s"

text \<open>
  A session: the component and the number of \<open>fetch\<close> calls that have not settled yet.
  A \<open>Settled\<close> event is the answer to an outstanding request: none arrives when nothing
  is outstanding.
\<close>

record session =
  ui :: state
  in_flight :: nat

fun fetches :: "effect list \<Rightarrow> nat" where
  "fetches [] = 0"
| "fetches (Fetch r # es) = Suc (fetches es)"
| "fetches (e # es) = fetches es"

fun is_settled :: "event \<Rightarrow> bool" where
  "is_settled (Settled outcome) = True"
| "is_settled e = False"

definition step :: "event \<Rightarrow> session \<Rightarrow> session" where
  "step e c =
     (if is_settled e \<and> in_flight c = 0 then c
      else \<lparr>ui = fst (dispatch e (ui c)),
            in_flight = in_flight c + fetches (snd (dispatch e (ui c)))
                        - (if is_settled e then 1 else 0)\<rparr>)"

fun run :: "event list \<Rightarrow> session \<Rightarrow> session" where
  "run [] c = c"
| "run (e # es) c = run es (step e c)"

definition mounted :: "bool \<Rightarrow> session" where
  "mounted supported = \<lparr>ui = fst (mount supported initial), in_flight = 0\<rparr>"

text \<open>
  The capture state as the page shows it, and the engine as the component left it.
\<close>

definition listening :: "state \<Rightarrow> bool" where
  "listening s = (isListening s \<and> recognition s \<noteq> None)"

definition engine_active :: "state \<Rightarrow> bool" where
  "engine_active s = (case recognition s of None \<Rightarrow> False | Some e \<Rightarrow> started e)"

text \<open>Result events handled one after the other, in the order of the list.\<close>

fun deliver :: "SpeechRecognitionEvent list \<Rightarrow> state \<Rightarrow> state" where
  "deliver [] s = s"
| "deliver (e # es) s = deliver es (fst (onresult e s))"

text \<open>
  At most one request is outstanding, and the loading flag is set exactly while one is.
\<close>

definition single_flight :: "session \<Rightarrow> bool" where
  "single_flight c = (in_flight c \<le> 1 \<and> isLoading (ui c) = (in_flight c = 1))"

text \<open>
  Event lists in which the engine reports \<open>no-speech\<close> only while the page is listening;
  every other event may come at any time.
\<close>

fun timely :: "event \<Rightarrow> state \<Rightarrow> bool" where
  "timely (EngineError ev) s = (error ev \<noteq> ''no-speech'' \<or> isListening s)"
| "timely e s = True"

fun no_speech_while_listening :: "event list \<Rightarrow> session \<Rightarrow> bool" where
  "no_speech_while_listening [] c = True"
| "no_speech_while_listening (e # es) c =
     (timely e (ui c) \<and> no_speech_while_listening es (step e c))"

section \<open>The route \<open>POST /api/summarizer\<close>\<close>

text \<open>
  Two things the route leaves to the runtime: the text of a number, and the message of
  a TypeError it raises.
\<close>

record host =
  number_text :: "rat \<Rightarrow> string"
  type_error_message :: "fault \<Rightarrow> string"

text \<open>
  The text a template literal gives the value in \<open>${meetingText}\<close>. A string stands for
  itself. An array is joined with commas, \<open>null\<close> elements giving the empty text. An
  object takes \<open>toString\<close> from its prototype and reads \<open>[object Object]\<close>, unless the
  document gave it a member \<open>toString\<close> of its own: no JSON value can be called, the
  inherited \<open>valueOf\<close> returns the object itself, and the conversion throws a TypeError.
\<close>

fun to_text :: "host \<Rightarrow> json \<Rightarrow> thrown + string"
  and join_texts :: "host \<Rightarrow> json list \<Rightarrow> thrown + string" where
  "to_text h JNull = Inr ''null''"
| "to_text h (JBool b) = Inr (if b then ''true'' else ''false'')"
| "to_text h (JNum n) = Inr (number_text h n)"
| "to_text h (JStr s) = Inr s"
| "to_text h (JArr xs) = join_texts h xs"
| "to_text h (JObj kvs) =
     (if ''toString'' \<in> set (map fst kvs) then Inl (TypeError NotPrimitive)
      else Inr ''[object Object]'')"
| "join_texts h [] = Inr []"
| "join_texts h (x # xs) =
     (case (if x = JNull then Inr [] else to_text h x) of
        Inl t \<Rightarrow> Inl t
      | Inr s \<Rightarrow>
          if xs = [] then Inr s
          else (case join_texts h xs of
                  Inl t \<Rightarrow> Inl t
                | Inr r \<Rightarrow> Inr (s @ '','' @ r)))"

record chat_request =
  model :: string
  messages :: "(string \<times> string) list"
  temperature :: rat

definition system_content :: string where
  "system_content = ''You are a professional meeting summarization assistant. Your primary role is to read, analyze, and create a clear, concise, and comprehensive summary of the meeting transcript. Ensure that the summary covers the following four key sections: 1) Key Points, 2) Decisions Made, 3) Action Items, and 4) Follow-Up Tasks. Avoid redundancy and repetition across these sections, ensuring each point is listed only once in the most relevant section. Focus on clarity, brevity, and precision, ensuring no critical information is omitted. Always list action items with specific deadlines and the names of responsible persons if mentioned. ONLY USE THE DATA PROVIDED IN THE MEETING TEXT. DO NOT ADD NEW INFORMATION, INTERPRET, OR MAKE ASSUMPTIONS. The summary should be written in professional language that is clear, direct, and easy for all stakeholders to understand.''"

text \<open>The request for the provider; \<open>meeting\<close> is the text of \<open>${meetingText}\<close>.\<close>

definition completion_request :: "string \<Rightarrow> chat_request" where
  "completion_request meeting =
     \<lparr>model = ''gemini-2.0-flash'',
      messages =
        [(''system'', system_content),
         (''user'', ''Here is the meeting text for you to summarize: '' @ meeting
            @ ''. Please provide a summary following the structure outlined above.'')],
      temperature = 6 / 10\<rparr>"

text \<open>The completion the provider returns, as far as the route reads it.\<close>

record ChatCompletionMessage =
  content :: "string option"

record Choice =
  message :: "ChatCompletionMessage option"

record ChatCompletion =
  choices :: "Choice list"

text \<open>\<open>response.choices[0]?.message?.content || "No summary generated."\<close>\<close>

definition summary_content :: "ChatCompletion \<Rightarrow> string" where
  "summary_content r =
     (case choices r of
        [] \<Rightarrow> ''No summary generated.''
      | c # cs \<Rightarrow>
          (case message c of
             None \<Rightarrow> ''No summary generated.''
           | Some m \<Rightarrow>
               (case content m of
                  None \<Rightarrow> ''No summary generated.''
                | Some text \<Rightarrow> if text = [] then ''No summary generated.'' else text)))"

record response =
  status :: nat
  payload :: json

datatype server_effect =
    UpstreamCall chat_request
  | ServerConsoleError string thrown

text \<open>The \<open>catch\<close> block of the route.\<close>

definition error_message :: "host \<Rightarrow> thrown \<Rightarrow> string" where
  "error_message h t =
     (case t of
        ErrorObj m \<Rightarrow> m
      | TypeError f \<Rightarrow> type_error_message h f
      | NonError \<Rightarrow> ''An unknown error occurred while generating the meeting summary.'')"

definition caught :: "host \<Rightarrow> thrown \<Rightarrow> server_effect list \<Rightarrow> response \<times> server_effect list" where
  "caught h t logged =
     (\<lparr>status = 500, payload = JObj [(''error'', JStr (error_message h t))]\<rparr>,
      logged @ [ServerConsoleError ''API Error:'' t])"

text \<open>
  The handler. \<open>parsed\<close> is what \<open>request.json()\<close> gives (a rejection when the body is
  not JSON), \<open>upstream\<close> is \<open>openai.chat.completions.create\<close>: what it returns or throws
  for a request. The messages, and with them the template literal, are built before the
  provider is called.
\<close>

definition POST ::
  "host \<Rightarrow> (chat_request \<Rightarrow> thrown + ChatCompletion) \<Rightarrow> thrown + json
     \<Rightarrow> response \<times> server_effect list" where
  "POST h upstream parsed =
     (case parsed of
        Inl t \<Rightarrow> caught h t []
      | Inr document \<Rightarrow>
          (case get_member ''meetingText'' document of
             Inl t \<Rightarrow> caught h t []
           | Inr meetingText \<Rightarrow>
               if \<not> truthy meetingText then
                 (\<lparr>status = 400,
                   payload = JObj [(''error'', JStr ''Meeting text is required in the request body.'')]\<rparr>,
                  [])
               else
                 (case to_text h (the meetingText) of
                    Inl t \<Rightarrow> caught h t []
                  | Inr meeting \<Rightarrow>
                      (case upstream (completion_request meeting) of
                         Inl t \<Rightarrow> caught h t [UpstreamCall (completion_request meeting)]
                       | Inr completion \<Rightarrow>
                           (\<lparr>status = 200,
                             payload = JObj [(''summary'', JStr (summary_content completion))]\<rparr>,
                            [UpstreamCall (completion_request meeting)])))))"


section \<open>Properties of the capture handlers\<close>

lemma first_transcripts_total:
  "\<forall>r \<in> set rs. r \<noteq> [] \<Longrightarrow> first_transcripts rs = Inr (map (\<lambda>r. transcript (hd r)) rs)"
  by (induction rs rule: first_transcripts.induct) auto

lemma onresult_appends:
  assumes "\<forall>r \<in> set (results event). r \<noteq> []"
  shows "onresult event s =
    (s\<lparr>transcription := transcription s @ concat (map (\<lambda>r. transcript (hd r)) (results event))\<rparr>, [])"
  using first_transcripts_total [OF assms] by (simp add: onresult_def)

text \<open>
  What a run of result events leaves in the transcription: for each event in turn, the
  first alternatives of all the results the event lists, whether or not an earlier event
  listed them already.
\<close>

lemma deliver_transcription:
  "\<forall>e \<in> set evs. \<forall>r \<in> set (results e). r \<noteq> [] \<Longrightarrow>
   transcription (deliver evs s) =
     transcription s @ concat (map (\<lambda>e. concat (map (\<lambda>r. transcript (hd r)) (results e))) evs)"
proof (induction evs arbitrary: s)
  case Nil
  show ?case by simp
next
  case (Cons e evs)
  have head: "\<forall>r \<in> set (results e). r \<noteq> []" using Cons.prems by simp
  have tail: "\<forall>e \<in> set evs. \<forall>r \<in> set (results e). r \<noteq> []" using Cons.prems by simp
  show ?case
    by (simp add: Cons.IH [OF tail] onresult_appends [OF head])
qed

text \<open>
  Claim C1. The transcription should be the newly recognized segments in delivery order,
  none of them twice. The engine is set to \<open>continuous\<close>, where the result list of an
  event holds every result of the session so far. Two segments, \<open>hello\<close> and then
  \<open>world\<close> with its leading blank, arrive while the page is listening as an event
  listing the first and an event listing both; \<open>onresult\<close> joins the whole list each
  time and appends it, so the first segment stands in the transcription twice.
\<close>

theorem onresult_repeats_listed_results:
  "transcription
     (ui (run
        [ClickStart,
         EngineResult \<lparr>results = [[\<lparr>transcript = ''hello''\<rparr>]], error = []\<rparr>,
         EngineResult
           \<lparr>results = [[\<lparr>transcript = ''hello''\<rparr>], [\<lparr>transcript = '' world''\<rparr>]], error = []\<rparr>]
        (mounted True)))
   = ''hellohello world''"
  by (simp add: step_def mounted_def mount_def initial_def startListening_def onresult_def)

text \<open>
  Claim C5. While the page is listening, a \<open>no-speech\<close> error logs a warning and calls
  \<open>start()\<close> on the engine the ref already holds; the page keeps listening, and the
  transcription and the summary stay as they were.
\<close>

theorem no_speech_restarts_and_keeps_transcript:
  assumes "listening s" and "error event = ''no-speech''"
  shows "snd (onerror event s) =
           [ConsoleWarn ''No speech detected. Restarting recognition...'', EngineStart]
       \<and> listening (fst (onerror event s))
       \<and> engine_active (fst (onerror event s))
       \<and> recognition (fst (onerror event s)) =
           map_option (\<lambda>e. e\<lparr>started := True\<rparr>) (recognition s)
       \<and> transcription (fst (onerror event s)) = transcription s
       \<and> summarizedText (fst (onerror event s)) = summarizedText s
       \<and> isListening (fst (onerror event s)) = isListening s"
  using assms by (auto simp: onerror_def listening_def engine_active_def)

theorem no_speech_restarts_and_keeps_transcript_witness:
  "listening (initial\<lparr>transcription := ''agenda'', isListening := True,
       recognition := Some \<lparr>continuous = True, interimResults = False, started = True\<rparr>\<rparr>)
   \<and> transcription (fst (onerror \<lparr>results = [], error = ''no-speech''\<rparr>
       (initial\<lparr>transcription := ''agenda'', isListening := True,
          recognition := Some \<lparr>continuous = True, interimResults = False, started = True\<rparr>\<rparr>)))
     = ''agenda''"
proof -
  let ?s = "initial\<lparr>transcription := ''agenda'', isListening := True,
       recognition := Some \<lparr>continuous = True, interimResults = False, started = True\<rparr>\<rparr>"
  have l: "listening ?s" by (simp add: listening_def)
  have e: "error \<lparr>results = [], error = ''no-speech''\<rparr> = ''no-speech''" by simp
  from no_speech_restarts_and_keeps_transcript [OF l e]
  have "transcription (fst (onerror \<lparr>results = [], error = ''no-speech''\<rparr> ?s)) = transcription ?s"
    by blast
  then show ?thesis using l by (simp add: initial_def)
qed



section \<open>The engine and the listening flag\<close>

lemma capture_dispatch:
  assumes "engine_active s = listening s" and "timely e s"
  shows "engine_active (fst (dispatch e s)) = listening (fst (dispatch e s))"
  using assms
  by (cases e)
    (auto simp: engine_active_def listening_def startListening_def stopListening_def
       summarizeTranscription_def clearTranscription_def copyTranscription_def
       toggleEditing_def onChange_def onresult_def onerror_def summarize_settled_def
       copy_settled_def copied_timeout_def unmount_def split: option.splits sum.splits)

lemma capture_step:
  assumes "engine_active (ui c) = listening (ui c)" and "timely e (ui c)"
  shows "engine_active (ui (step e c)) = listening (ui (step e c))"
  using capture_dispatch [OF assms] assms(1) by (simp add: step_def)

lemma capture_run:
  "engine_active (ui c) = listening (ui c) \<Longrightarrow> no_speech_while_listening es c \<Longrightarrow>
   engine_active (ui (run es c)) = listening (ui (run es c))"
proof (induction es arbitrary: c)
  case Nil
  then show ?case by simp
next
  case (Cons e es)
  from Cons.prems have now: "timely e (ui c)" and later: "no_speech_while_listening es (step e c)"
    by simp_all
  have "engine_active (ui (step e c)) = listening (ui (step e c))"
    by (rule capture_step [OF Cons.prems(1) now])
  from Cons.IH [OF this later] show ?case by simp
qed

text \<open>
  Every event but one keeps the engine and the listening flag in step: from the mounted
  component, with or without a recognition engine, after every run of events in which
  \<open>no-speech\<close> errors arrive only while the page is listening, the engine is started
  exactly when the page is listening. Started means that \<open>start()\<close> was the last call
  the component made on the engine.
\<close>

lemma capture_in_step:
  assumes "no_speech_while_listening es (mounted supported)"
  shows "engine_active (ui (run es (mounted supported))) = listening (ui (run es (mounted supported)))"
proof -
  have "engine_active (ui (mounted supported)) = listening (ui (mounted supported))"
    by (simp add: mounted_def mount_def initial_def engine_active_def listening_def)
  from capture_run [OF this assms] show ?thesis .
qed

text \<open>
  Claim C7. In every reachable state the engine should be active exactly when the page
  is listening. \<open>startListening\<close> and \<open>stopListening\<close> write the flag with every call
  they make on the engine; \<open>onerror\<close> calls \<open>start()\<close> without looking at the flag. A
  \<open>no-speech\<close> error that the engine reports after Stop was pressed starts the engine
  again while the page shows that it is not listening, and the Stop button, disabled in
  that state, cannot stop it.
\<close>

theorem late_no_speech_restarts_engine:
  "engine_active (ui (run [ClickStart, ClickStop, EngineError \<lparr>results = [], error = ''no-speech''\<rparr>]
                      (mounted True)))
   \<and> \<not> listening (ui (run [ClickStart, ClickStop, EngineError \<lparr>results = [], error = ''no-speech''\<rparr>]
                      (mounted True)))
   \<and> step ClickStop (run [ClickStart, ClickStop, EngineError \<lparr>results = [], error = ''no-speech''\<rparr>]
                      (mounted True))
     = run [ClickStart, ClickStop, EngineError \<lparr>results = [], error = ''no-speech''\<rparr>] (mounted True)"
  by (simp add: step_def mounted_def mount_def initial_def startListening_def stopListening_def
      onerror_def engine_active_def listening_def)

text \<open>
  Claim C9, as stated: Start while listening and Stop while idle are reported as an
  advisory. Nothing is reported. The click on the disabled button reaches no handler,
  and the handlers themselves, run in those states, call the engine again and raise no
  alert.
\<close>

theorem repeated_capture_click_shows_nothing:
  "dispatch ClickStart (ui (run [ClickStart] (mounted True)))
     = (ui (run [ClickStart] (mounted True)), [])
   \<and> startListening (ui (run [ClickStart] (mounted True)))
     = (ui (run [ClickStart] (mounted True)), [EngineStart])
   \<and> dispatch ClickStop (ui (mounted True)) = (ui (mounted True), [])
   \<and> stopListening (ui (mounted True)) = (ui (mounted True), [EngineStop])"
  by (simp add: step_def mounted_def mount_def initial_def startListening_def stopListening_def)

text \<open>
  Claim C9, amended. A click on Start while \<open>isListening\<close> is set, and a click on Stop
  while it is not, change no hook and have no outside effect at all: no advisory and no
  error. \<open>startListening\<close> run while the page is listening and the engine is started,
  and \<open>stopListening\<close> run while the page is idle and the engine is stopped, leave every
  hook as it was, repeat the call on the engine and raise no alert.
\<close>

theorem repeated_capture_click_is_inert:
  "(isListening s \<longrightarrow> dispatch ClickStart s = (s, []))
   \<and> (\<not> isListening s \<longrightarrow> dispatch ClickStop s = (s, []))
   \<and> (listening s \<and> engine_active s \<longrightarrow> startListening s = (s, [EngineStart]))
   \<and> (\<not> isListening s \<and> recognition s \<noteq> None \<and> \<not> engine_active s \<longrightarrow>
        stopListening s = (s, [EngineStop]))"
  by (auto simp: listening_def engine_active_def startListening_def stopListening_def)

theorem repeated_capture_click_is_inert_witness:
  "isListening (ui (run [ClickStart] (mounted True)))
   \<and> dispatch ClickStart (ui (run [ClickStart] (mounted True)))
       = (ui (run [ClickStart] (mounted True)), [])
   \<and> \<not> isListening (ui (mounted True))
   \<and> dispatch ClickStop (ui (mounted True)) = (ui (mounted True), [])"
proof -
  have on: "isListening (ui (run [ClickStart] (mounted True)))"
    by (simp add: step_def mounted_def mount_def initial_def startListening_def)
  have off: "\<not> isListening (ui (mounted True))"
    by (simp add: mounted_def mount_def initial_def)
  from repeated_capture_click_is_inert [of "ui (run [ClickStart] (mounted True))"]
    repeated_capture_click_is_inert [of "ui (mounted True)"] on off
  show ?thesis by blast
qed

section \<open>Properties of the summary request\<close>




text \<open>
  Claim C3, as stated: a transcript of whitespace only is not sent. The guard of
  \<open>summarizeTranscription\<close> tests for the empty string alone, so a single blank is sent
  like any other text.
\<close>

theorem blank_transcript_is_sent:
  "summarizeTranscription (initial\<lparr>transcription := '' ''\<rparr>)
   = (initial\<lparr>transcription := '' '', isLoading := True\<rparr>, [Fetch (summarize_request '' '')])"
  by (simp add: summarizeTranscription_def initial_def)

text \<open>
  Claim C3, amended. On the empty transcript \<open>summarizeTranscription\<close> raises the alert
  \<open>No transcription available to summarize.\<close>, sends nothing and changes no hook, the
  summary included. On every other transcript, blank or not, it sets the loading flag
  and sends the transcript.
\<close>

theorem empty_transcript_is_not_sent:
  "(transcription s = [] \<longrightarrow>
      summarizeTranscription s = (s, [Alert ''No transcription available to summarize.'']))
   \<and> (transcription s \<noteq> [] \<longrightarrow>
      summarizeTranscription s
        = (s\<lparr>isLoading := True\<rparr>, [Fetch (summarize_request (transcription s))]))"
  by (simp add: summarizeTranscription_def)

theorem empty_transcript_is_not_sent_witness:
  "summarizeTranscription (initial\<lparr>summarizedText := JStr ''old''\<rparr>)
     = (initial\<lparr>summarizedText := JStr ''old''\<rparr>, [Alert ''No transcription available to summarize.''])
   \<and> fetches (snd (summarizeTranscription (initial\<lparr>transcription := ''agenda''\<rparr>))) = 1"
  using empty_transcript_is_not_sent [of "initial\<lparr>summarizedText := JStr ''old''\<rparr>"]
    empty_transcript_is_not_sent [of "initial\<lparr>transcription := ''agenda''\<rparr>"]
  by (simp add: initial_def)

lemma fetches_dispatch:
  "fetches (snd (dispatch e s)) =
     (if e = ClickSummarize \<and> transcription s \<noteq> [] \<and> \<not> isLoading s then 1 else 0)"
  by (cases e)
    (auto simp: startListening_def stopListening_def summarizeTranscription_def
       clearTranscription_def copyTranscription_def toggleEditing_def onChange_def
       onresult_def onerror_def summarize_settled_def copy_settled_def copied_timeout_def
       unmount_def split: option.splits sum.splits)

lemma isLoading_dispatch:
  "isLoading (fst (dispatch e s)) =
     (if is_settled e then False
      else if e = ClickSummarize \<and> transcription s \<noteq> [] then True
      else isLoading s)"
  by (cases e)
    (auto simp: startListening_def stopListening_def summarizeTranscription_def
       clearTranscription_def copyTranscription_def toggleEditing_def onChange_def
       onresult_def onerror_def summarize_settled_def copy_settled_def copied_timeout_def
       unmount_def split: option.splits sum.splits)

lemma single_flight_step: "single_flight c \<Longrightarrow> single_flight (step e c)"
  by (auto simp: single_flight_def step_def fetches_dispatch isLoading_dispatch)

lemma single_flight_run: "single_flight c \<Longrightarrow> single_flight (run es c)"
  by (induction es arbitrary: c) (simp_all add: single_flight_step)

lemma single_flight_mounted: "single_flight (mounted supported)"
  by (simp add: single_flight_def mounted_def mount_def initial_def)

text \<open>
  Claim C4, as stated: a call made while a request is outstanding is rejected with an
  advisory and sends nothing. \<open>summarizeTranscription\<close> has no such check and sends a
  second request when it runs with the loading flag set; the click on the disabled
  button sends nothing and reports nothing either.
\<close>

theorem second_request_when_handler_runs:
  "snd (summarizeTranscription (initial\<lparr>transcription := ''agenda'', isLoading := True\<rparr>))
     = [Fetch (summarize_request ''agenda'')]
   \<and> snd (dispatch ClickSummarize (initial\<lparr>transcription := ''agenda'', isLoading := True\<rparr>)) = []"
  by (simp add: summarizeTranscription_def initial_def)

text \<open>
  Claim C4, amended. In every session the page can reach from the mounted component, at
  most one request is outstanding, and the loading flag is set exactly while one is.
  While it is set, a click on the Summarize button reaches no handler: it sends no
  request, reports nothing and leaves the session as it was, so the outstanding request
  settles as it would have.
\<close>

theorem summarize_button_single_flight:
  assumes "c = run es (mounted supported)"
  shows "in_flight c \<le> 1
       \<and> isLoading (ui c) = (in_flight c = 1)
       \<and> (isLoading (ui c) \<longrightarrow>
            dispatch ClickSummarize (ui c) = (ui c, []) \<and> step ClickSummarize c = c)"
proof -
  have inv: "single_flight c"
    unfolding assms by (rule single_flight_run [OF single_flight_mounted])
  have "isLoading (ui c) \<Longrightarrow> step ClickSummarize c = c"
    by (simp add: step_def)
  with inv show ?thesis by (simp add: single_flight_def)
qed

theorem summarize_button_single_flight_witness:
  "isLoading (ui (run [EngineResult \<lparr>results = [[\<lparr>transcript = ''agenda''\<rparr>]], error = []\<rparr>,
                       ClickSummarize] (mounted True)))
   \<and> step ClickSummarize
        (run [EngineResult \<lparr>results = [[\<lparr>transcript = ''agenda''\<rparr>]], error = []\<rparr>,
              ClickSummarize] (mounted True))
     = run [EngineResult \<lparr>results = [[\<lparr>transcript = ''agenda''\<rparr>]], error = []\<rparr>,
            ClickSummarize] (mounted True)"
proof -
  let ?c = "run [EngineResult \<lparr>results = [[\<lparr>transcript = ''agenda''\<rparr>]], error = []\<rparr>,
                 ClickSummarize] (mounted True)"
  have loading: "isLoading (ui ?c)"
    by (simp add: step_def mounted_def mount_def initial_def onresult_def
        summarizeTranscription_def)
  from summarize_button_single_flight [OF refl, of _ True] loading
  show ?thesis by blast
qed

text \<open>
  Claim C10. However the request settles (a summary, a response without one, a failure
  status, a body that is not JSON, a transport failure), the loading flag is cleared.
  The transcription is untouched, so whenever it is not empty the Summarize button is
  enabled again and a click sends a new request.
\<close>

theorem settling_clears_loading:
  "isLoading (fst (summarize_settled outcome s)) = False
   \<and> transcription (fst (summarize_settled outcome s)) = transcription s
   \<and> (transcription s \<noteq> [] \<longrightarrow>
        dispatch ClickSummarize (fst (summarize_settled outcome s))
          = ((fst (summarize_settled outcome s))\<lparr>isLoading := True\<rparr>,
             [Fetch (summarize_request (transcription s))]))"
  by (simp add: summarize_settled_def summarizeTranscription_def split: sum.splits)

theorem settling_clears_loading_witness:
  "fetches (snd (dispatch ClickSummarize
     (fst (summarize_settled (Rejected (ErrorObj ''Failed to fetch''))
        (initial\<lparr>transcription := ''agenda'', isLoading := True\<rparr>))))) = 1"
proof -
  let ?s = "initial\<lparr>transcription := ''agenda'', isLoading := True\<rparr>"
  let ?s' = "fst (summarize_settled (Rejected (ErrorObj ''Failed to fetch'')) ?s)"
  have filled: "transcription ?s \<noteq> []" by simp
  from settling_clears_loading [of "Rejected (ErrorObj ''Failed to fetch'')" ?s] filled
  have sent: "dispatch ClickSummarize ?s'
      = (?s'\<lparr>isLoading := True\<rparr>, [Fetch (summarize_request (transcription ?s))])"
    by blast
  show ?thesis unfolding sent by simp
qed

section \<open>Properties of the route\<close>

text \<open>
  Claim C8, as stated: every request whose body lacks \<open>meetingText\<close> is answered 400. A
  body that is \<open>null\<close>, and a body that is not JSON, have no \<open>meetingText\<close> either; the
  error raised on reading them is caught and the route answers 500.
\<close>

theorem unreadable_body_is_answered_500:
  "POST \<lparr>number_text = (\<lambda>n. []), type_error_message = (\<lambda>f. ''not an object'')\<rparr>
      (\<lambda>r. Inl NonError) (Inr JNull)
     = (\<lparr>status = 500, payload = JObj [(''error'', JStr ''not an object'')]\<rparr>,
        [ServerConsoleError ''API Error:'' (TypeError MemberOfNull)])
   \<and> POST \<lparr>number_text = (\<lambda>n. []), type_error_message = (\<lambda>f. ''not an object'')\<rparr>
      (\<lambda>r. Inl NonError) (Inl (ErrorObj ''Unexpected end of JSON input''))
     = (\<lparr>status = 500, payload = JObj [(''error'', JStr ''Unexpected end of JSON input'')]\<rparr>,
        [ServerConsoleError ''API Error:'' (ErrorObj ''Unexpected end of JSON input'')])"
  by (simp add: POST_def caught_def error_message_def)

text \<open>
  Claim C8, amended. For a body that parses to a JSON document other than \<open>null\<close> and
  has no \<open>meetingText\<close> member, or the empty string there, the route answers 400 with
  the error \<open>Meeting text is required in the request body.\<close> and never calls the
  provider. A body that is not JSON, or is \<open>null\<close>, is answered 500 with the message of
  the error raised, and the provider is not called. So is a \<open>meetingText\<close> that has no
  text for the prompt. When the text is there and the call to the provider throws, the
  route answers 500 with an error string: the message of the error thrown, or a fixed
  text when the thrown value is no error.
\<close>

theorem POST_rejects_missing_text:
  "POST h upstream (Inl t)
     = (\<lparr>status = 500, payload = JObj [(''error'', JStr (error_message h t))]\<rparr>,
        [ServerConsoleError ''API Error:'' t])
   \<and> POST h upstream (Inr JNull)
     = (\<lparr>status = 500, payload = JObj [(''error'', JStr (type_error_message h MemberOfNull))]\<rparr>,
        [ServerConsoleError ''API Error:'' (TypeError MemberOfNull)])
   \<and> (get_member ''meetingText'' document = Inr v \<and> (v = None \<or> v = Some (JStr [])) \<longrightarrow>
        POST h upstream (Inr document)
          = (\<lparr>status = 400,
              payload = JObj [(''error'', JStr ''Meeting text is required in the request body.'')]\<rparr>,
             []))
   \<and> (get_member ''meetingText'' document = Inr v \<and> truthy v \<and> to_text h (the v) = Inl t \<longrightarrow>
        POST h upstream (Inr document)
          = (\<lparr>status = 500, payload = JObj [(''error'', JStr (error_message h t))]\<rparr>,
             [ServerConsoleError ''API Error:'' t]))
   \<and> (get_member ''meetingText'' document = Inr v \<and> truthy v \<and> to_text h (the v) = Inr meeting
        \<and> upstream (completion_request meeting) = Inl t \<longrightarrow>
        POST h upstream (Inr document)
          = (\<lparr>status = 500, payload = JObj [(''error'', JStr (error_message h t))]\<rparr>,
             [UpstreamCall (completion_request meeting), ServerConsoleError ''API Error:'' t]))"
  by (auto simp: POST_def caught_def error_message_def)

theorem POST_rejects_missing_text_witness:
  "POST \<lparr>number_text = (\<lambda>n. []), type_error_message = (\<lambda>f. [])\<rparr>
      (\<lambda>r. Inl (ErrorObj ''upstream timeout'')) (Inr (JObj [(''title'', JStr ''standup'')]))
     = (\<lparr>status = 400,
         payload = JObj [(''error'', JStr ''Meeting text is required in the request body.'')]\<rparr>, [])
   \<and> POST \<lparr>number_text = (\<lambda>n. []), type_error_message = (\<lambda>f. [])\<rparr>
      (\<lambda>r. Inl (ErrorObj ''upstream timeout''))
      (Inr (JObj [(''meetingText'', JObj [(''toString'', JNum 1)])]))
     = (\<lparr>status = 500, payload = JObj [(''error'', JStr [])]\<rparr>,
        [ServerConsoleError ''API Error:'' (TypeError NotPrimitive)])
   \<and> fst (POST \<lparr>number_text = (\<lambda>n. []), type_error_message = (\<lambda>f. [])\<rparr>
             (\<lambda>r. Inl (ErrorObj ''upstream timeout''))
             (Inr (JObj [(''meetingText'', JStr ''We agreed to ship Friday.'')])))
     = \<lparr>status = 500, payload = JObj [(''error'', JStr ''upstream timeout'')]\<rparr>"
proof -
  let ?h = "\<lparr>number_text = (\<lambda>n. []), type_error_message = (\<lambda>f. [])\<rparr>"
  let ?up = "\<lambda>r::chat_request. (Inl (ErrorObj ''upstream timeout'') :: thrown + ChatCompletion)"
  have missing: "get_member ''meetingText'' (JObj [(''title'', JStr ''standup'')]) = Inr None"
    by simp
  have odd: "get_member ''meetingText'' (JObj [(''meetingText'', JObj [(''toString'', JNum 1)])])
      = Inr (Some (JObj [(''toString'', JNum 1)]))"
    by simp
  have no_text: "to_text ?h (the (Some (JObj [(''toString'', JNum 1)]))) = Inl (TypeError NotPrimitive)"
    by simp
  have given: "get_member ''meetingText'' (JObj [(''meetingText'', JStr ''We agreed to ship Friday.'')])
      = Inr (Some (JStr ''We agreed to ship Friday.''))"
    by simp
  have readable: "to_text ?h (the (Some (JStr ''We agreed to ship Friday.'')))
      = Inr ''We agreed to ship Friday.''"
    by simp
  from POST_rejects_missing_text
      [where h = ?h and upstream = ?up and document = "JObj [(''title'', JStr ''standup'')]"
         and v = None] missing
  have a: "POST ?h ?up (Inr (JObj [(''title'', JStr ''standup'')]))
     = (\<lparr>status = 400,
         payload = JObj [(''error'', JStr ''Meeting text is required in the request body.'')]\<rparr>, [])"
    by blast
  from POST_rejects_missing_text
      [where h = ?h and upstream = ?up
         and document = "JObj [(''meetingText'', JObj [(''toString'', JNum 1)])]"
         and v = "Some (JObj [(''toString'', JNum 1)])" and t = "TypeError NotPrimitive"]
    odd no_text
  have b: "POST ?h ?up (Inr (JObj [(''meetingText'', JObj [(''toString'', JNum 1)])]))
     = (\<lparr>status = 500, payload = JObj [(''error'', JStr [])]\<rparr>,
        [ServerConsoleError ''API Error:'' (TypeError NotPrimitive)])"
    by (simp add: error_message_def)
  from POST_rejects_missing_text
      [where h = ?h and upstream = ?up
         and document = "JObj [(''meetingText'', JStr ''We agreed to ship Friday.'')]"
         and v = "Some (JStr ''We agreed to ship Friday.'')"
         and meeting = "''We agreed to ship Friday.''" and t = "ErrorObj ''upstream timeout''"]
    given readable
  have c: "fst (POST ?h ?up (Inr (JObj [(''meetingText'', JStr ''We agreed to ship Friday.'')])))
     = \<lparr>status = 500, payload = JObj [(''error'', JStr ''upstream timeout'')]\<rparr>"
    by (simp add: error_message_def)
  from a b c show ?thesis by simp
qed

end
